theory Spec2Isabelle
  imports Complex_Main
begin

section \<open>Python values used by appendlengthtoCSV.py\<close>

text \<open>
  The exceptions that can leave \<open>processAlgorithm\<close>: the one the source raises itself
  (\<open>QgsProcessingException\<close>), and the ones Python raises for a missing attribute, a
  missing dictionary key and a file that cannot be opened.
\<close>

datatype error =
    AttributeError string
  | QgsProcessingException string
  | KeyError string
  | OSError string

text \<open>
  A measured length is a double. The model takes a finite double as the real number it
  denotes; the non-finite doubles are outside the model. What double arithmetic computes
  from such numbers (a sum, a unit conversion) is rounded, so it is not the exact sum or
  product: those operations are the host's, below. A Python number here is an integer
  (the 0 that \<open>sum\<close> starts from) or a float.
\<close>

datatype pynum = PyInt int | PyFloat real

fun as_float :: "pynum \<Rightarrow> real" where
  "as_float (PyInt i) = of_int i"
| "as_float (PyFloat r) = r"

text \<open>
  \<open>round(x)\<close> of a float with no second argument: the nearest integer, a tie going to
  the even one.
\<close>

definition py_round :: "real \<Rightarrow> int" where
  "py_round x =
     (let f = \<lfloor>x\<rfloor>; d = x - of_int f
      in if d < 1 / 2 then f
         else if 1 / 2 < d then f + 1
         else if even f then f else f + 1)"

text \<open>\<open>str\<close> of an integer, as an f-string and the csv writer render it.\<close>

definition digit_char :: "nat \<Rightarrow> char" where
  "digit_char d = ''0123456789'' ! d"

fun str_nat :: "nat \<Rightarrow> string" where
  "str_nat n = (if n < 10 then [digit_char n] else str_nat (n div 10) @ [digit_char (n mod 10)])"

declare str_nat.simps [simp del]

definition str_int :: "int \<Rightarrow> string" where
  "str_int i = (if i < 0 then CHR ''-'' # str_nat (nat (- i)) else str_nat (nat i))"

section \<open>The host: QGIS and the Python library\<close>

text \<open>
  What the algorithm calls and does not define. The first argument of the three
  \<open>QgsDistanceArea\<close> functions is the ellipsoid set on the object.
  \<^item> \<open>measureLength\<close>: \<open>distance_measure.measureLength(feature.geometry())\<close>;
  \<^item> \<open>lengthUnits\<close>: \<open>QgsUnitTypes.toString(distance_measure.lengthUnits())\<close>;
  \<^item> \<open>convertLengthMeasurement\<close>: the double that
    \<open>distance_measure.convertLengthMeasurement(x, QgsUnitTypes.DistanceKilometers)\<close> returns;
  \<^item> \<open>float_sum\<close>: the double that the interpreter's \<open>sum\<close> returns for one or more
    floats, added in the order given;
  \<^item> \<open>float_str\<close>: how an f-string renders a float;
  \<^item> \<open>invalidSourceError\<close>: the standard text for the parameter of that name;
  \<^item> \<open>base_attr\<close>: the attributes the class inherits from \<open>QgsProcessingAlgorithm\<close>;
  \<^item> \<open>Path_str\<close>: \<open>str(Path(p))\<close>.
\<close>

record 'g host =
  measureLength :: "string \<Rightarrow> 'g \<Rightarrow> real"
  lengthUnits :: "string \<Rightarrow> string"
  convertLengthMeasurement :: "string \<Rightarrow> real \<Rightarrow> real"
  float_sum :: "real list \<Rightarrow> real"
  float_str :: "real \<Rightarrow> string"
  invalidSourceError :: "string \<Rightarrow> string"
  base_attr :: "string \<Rightarrow> string option"
  Path_str :: "string \<Rightarrow> string"

text \<open>
  The parameters of one invocation, as the host resolves them:
  \<open>parameterAsSource\<close> gives the features of a layer, or \<open>None\<close>;
  \<open>parameterAsString\<close> and \<open>parameterAsFileOutput\<close> give a string.
  A feature is represented by its geometry.
\<close>

record 'g parameters =
  parameterAsSource :: "string \<Rightarrow> 'g list option"
  parameterAsString :: "string \<Rightarrow> string"
  parameterAsFileOutput :: "string \<Rightarrow> string"

text \<open>
  A path of the file system holds nothing, a regular file with its contents, or something
  that \<open>open(path, "a")\<close> fails on (a directory, a file without write permission, a
  missing parent directory).
\<close>

datatype node = Missing | Regular string | Denied

text \<open>
  The effects of an invocation: the messages given to \<open>feedback.pushInfo\<close>, the
  geometries given to \<open>measureLength\<close> (both oldest first), and the file system.
\<close>

record 'g state =
  feedback :: "string list"
  measured :: "'g list"
  files :: "string \<Rightarrow> node"

definition pushInfo :: "string \<Rightarrow> 'g state \<Rightarrow> 'g state" where
  "pushInfo msg s = s\<lparr>feedback := feedback s @ [msg]\<rparr>"

section \<open>The class ExampleProcessingAlgorithm\<close>

definition TOTAL_ADDED :: string where "TOTAL_ADDED = ''TOTAL_ADDED''"
definition TOTAL_MODIFIED :: string where "TOTAL_MODIFIED = ''TOTAL_MODIFIED''"
definition KAART_ADDED :: string where "KAART_ADDED = ''KAART_ADDED''"
definition KAART_MODIFIED :: string where "KAART_MODIFIED = ''KAART_MODIFIED''"
definition COUNTRY_NAME :: string where "COUNTRY_NAME = ''COUNTRY_NAME''"
definition OUTPUT :: string where "OUTPUT = ''OUTPUT''"

text \<open>The constants the class body binds (lines 49 to 54); there is no other.\<close>

definition class_attrs :: "(string \<times> string) list" where
  "class_attrs =
     [(''TOTAL_ADDED'', TOTAL_ADDED), (''TOTAL_MODIFIED'', TOTAL_MODIFIED),
      (''KAART_ADDED'', KAART_ADDED), (''KAART_MODIFIED'', KAART_MODIFIED),
      (''COUNTRY_NAME'', COUNTRY_NAME), (''OUTPUT'', OUTPUT)]"

text \<open>\<open>self.NAME\<close>: the class first, then what it inherits, else \<open>AttributeError\<close>.\<close>

definition getattr :: "'g host \<Rightarrow> string \<Rightarrow> error + string" where
  "getattr h a =
     (case map_of class_attrs a of
        Some v \<Rightarrow> Inr v
      | None \<Rightarrow> (case base_attr h a of Some v \<Rightarrow> Inr v | None \<Rightarrow> Inl (AttributeError a)))"

section \<open>Input validation (lines 169 to 194)\<close>

definition sources_of :: "'g parameters \<Rightarrow> (string \<times> 'g list option) list" where
  "sources_of p =
     [(''total_added'', parameterAsSource p TOTAL_ADDED),
      (''total_modified'', parameterAsSource p TOTAL_MODIFIED),
      (''kaart_added'', parameterAsSource p KAART_ADDED),
      (''kaart_modified'', parameterAsSource p KAART_MODIFIED)]"

text \<open>
  The \<open>raise\<close> of line 192: its argument \<open>self.invalidSourceError(parameters, self.INPUT)\<close>
  is evaluated first, and with it \<open>self.INPUT\<close>.
\<close>

definition raise_invalid_source :: "'g host \<Rightarrow> error" where
  "raise_invalid_source h =
     (case getattr h ''INPUT'' of
        Inl e \<Rightarrow> e
      | Inr name \<Rightarrow> QgsProcessingException (invalidSourceError h name))"

fun check_sources :: "'g host \<Rightarrow> 'g list option list \<Rightarrow> error option" where
  "check_sources h [] = None"
| "check_sources h (v # vs) =
     (case v of None \<Rightarrow> Some (raise_invalid_source h) | Some _ \<Rightarrow> check_sources h vs)"

section \<open>Length aggregation (lines 198 to 209)\<close>

definition GRS80 :: string where "GRS80 = ''GRS80''"

text \<open>
  \<open>sum(...)\<close> over the measured lengths: it starts from the integer 0, so the sum of no
  floats is the integer 0, and the sum of at least one float is a float, the one the
  interpreter's summation of doubles gives.
\<close>

definition py_sum :: "'g host \<Rightarrow> real list \<Rightarrow> pynum" where
  "py_sum h xs = (if xs = [] then PyInt 0 else PyFloat (float_sum h xs))"

fun str_num :: "'g host \<Rightarrow> pynum \<Rightarrow> string" where
  "str_num h (PyInt i) = str_int i"
| "str_num h (PyFloat r) = float_str h r"

text \<open>One turn of the loop of line 199, for a layer that resolved.\<close>

definition aggregate_layer :: "'g host \<Rightarrow> string \<Rightarrow> 'g list \<Rightarrow> 'g state \<Rightarrow> int \<times> 'g state" where
  "aggregate_layer h name layer s =
     (let sumlength = py_sum h (map (measureLength h GRS80) layer);
          s1 = s\<lparr>measured := measured s @ layer\<rparr>;
          s2 = pushInfo (name @ '' is '' @ str_num h sumlength @ '' kilometers.'') s1
      in (py_round (convertLengthMeasurement h GRS80 (as_float sumlength)), s2))"

text \<open>
  The loop over \<open>sources.items()\<close>, in the order the dictionary was filled. A layer that
  is \<open>None\<close> has no \<open>getFeatures\<close>.
\<close>

fun aggregate ::
  "'g host \<Rightarrow> (string \<times> 'g list option) list \<Rightarrow> (string \<Rightarrow> int option) \<Rightarrow> 'g state
     \<Rightarrow> (error + (string \<Rightarrow> int option)) \<times> 'g state" where
  "aggregate h [] distances s = (Inr distances, s)"
| "aggregate h ((name, None) # rest) distances s = (Inl (AttributeError ''getFeatures''), s)"
| "aggregate h ((name, Some layer) # rest) distances s =
     (case aggregate_layer h name layer s of
        (d, s') \<Rightarrow> aggregate h rest (distances(name \<mapsto> d)) s')"

section \<open>CSV append (lines 211 to 230)\<close>

text \<open>A field of a row is a string or an integer.\<close>

datatype cell = S string | I int

text \<open>
  \<open>csv.writer(f, delimiter=",")\<close>: the default dialect. A field is written as its
  \<open>str\<close>, between double quotes (with each double quote doubled) when it holds a comma,
  a double quote, a carriage return or a line feed; fields are joined by commas and the
  row ends with carriage return and line feed.
\<close>

definition CR :: char where "CR = CHR 0x0D"
definition LF :: char where "LF = CHR 0x0A"

definition needs_quote :: "string \<Rightarrow> bool" where
  "needs_quote t = (CHR '','' \<in> set t \<or> CHR 0x22 \<in> set t \<or> CR \<in> set t \<or> LF \<in> set t)"

fun double_quotes :: "string \<Rightarrow> string" where
  "double_quotes [] = []"
| "double_quotes (c # cs) =
     (if c = CHR 0x22 then CHR 0x22 # CHR 0x22 # double_quotes cs else c # double_quotes cs)"

fun cell_str :: "cell \<Rightarrow> string" where
  "cell_str (S t) = t"
| "cell_str (I i) = str_int i"

definition csv_field :: "cell \<Rightarrow> string" where
  "csv_field c =
     (let t = cell_str c
      in if needs_quote t then [CHR 0x22] @ double_quotes t @ [CHR 0x22] else t)"

fun join_comma :: "string list \<Rightarrow> string" where
  "join_comma [] = []"
| "join_comma [t] = t"
| "join_comma (t # ts) = t @ '','' @ join_comma ts"

definition csv_row :: "cell list \<Rightarrow> string" where
  "csv_row r =
     (if r = [S []] then [CHR 0x22, CHR 0x22, CR, LF]
      else join_comma (map csv_field r) @ [CR, LF])"

definition writerows :: "cell list list \<Rightarrow> string" where
  "writerows rows = concat (map csv_row rows)"

definition header_row :: "cell list" where
  "header_row = [S ''Country'', S ''Data Change'', S ''Kaart'', S ''Total'']"

text \<open>\<open>distances[key]\<close>.\<close>

definition lookup :: "(string \<Rightarrow> int option) \<Rightarrow> string \<Rightarrow> error + int" where
  "lookup distances key = (case distances key of None \<Rightarrow> Inl (KeyError key) | Some v \<Rightarrow> Inr v)"

text \<open>
  The two data rows of lines 215 to 228; the four subscripts are evaluated in the order
  they are written.
\<close>

definition data_rows :: "string \<Rightarrow> (string \<Rightarrow> int option) \<Rightarrow> error + cell list list" where
  "data_rows country_name distances =
     (case lookup distances ''kaart_added'' of Inl e \<Rightarrow> Inl e | Inr ka \<Rightarrow>
     (case lookup distances ''total_added'' of Inl e \<Rightarrow> Inl e | Inr ta \<Rightarrow>
     (case lookup distances ''kaart_modified'' of Inl e \<Rightarrow> Inl e | Inr km \<Rightarrow>
     (case lookup distances ''total_modified'' of Inl e \<Rightarrow> Inl e | Inr tm \<Rightarrow>
        Inr [[S country_name, S ''Km of road added'', I ka, I ta],
             [S country_name, S ''Km of road edited or modified'', I km, I tm]]))))"

text \<open>What a path holds when it is opened for appending: a missing file is created empty.\<close>

definition contents :: "node \<Rightarrow> string" where
  "contents nd = (case nd of Regular c \<Rightarrow> c | _ \<Rightarrow> [])"

text \<open>
  The \<open>with\<close> block. Opening in append mode creates a missing file and puts the write
  position at the end, so \<open>f.tell()\<close> is the length of the contents; what is written
  goes after them. A write to the opened file does not fail in this model, and the text
  layer of the file is taken to store the characters as the writer gives them (no
  translation of line ends, no encoding step).
\<close>

definition append_csv ::
  "string \<Rightarrow> string \<Rightarrow> (string \<Rightarrow> int option) \<Rightarrow> 'g state \<Rightarrow> (error + unit) \<times> 'g state" where
  "append_csv dest_path country_name distances s =
     (case files s dest_path of
        Denied \<Rightarrow> (Inl (OSError dest_path), s)
      | nd \<Rightarrow>
          (let old = contents nd;
               tell = length old;
               rows_to_write = (if tell \<noteq> 0 then [] else [header_row])
           in case data_rows country_name distances of
                Inl e \<Rightarrow> (Inl e, s\<lparr>files := (files s)(dest_path := Regular old)\<rparr>)
              | Inr rows \<Rightarrow>
                  (Inr (),
                   s\<lparr>files := (files s)(dest_path := Regular (old @ writerows (rows_to_write @ rows)))\<rparr>)))"

section \<open>processAlgorithm (lines 154 to 232)\<close>

definition processAlgorithm ::
  "'g host \<Rightarrow> 'g parameters \<Rightarrow> 'g state \<Rightarrow> (error + (string \<times> string) list) \<times> 'g state" where
  "processAlgorithm h p s =
     (let s0 = pushInfo (''Length units are '' @ lengthUnits h GRS80) s;
          sources = sources_of p;
          country_name = parameterAsString p COUNTRY_NAME
      in case check_sources h (map snd sources) of
           Some e \<Rightarrow> (Inl e, s0)
         | None \<Rightarrow>
             (let dest_path = Path_str h (parameterAsFileOutput p OUTPUT)
              in case aggregate h sources Map.empty s0 of
                   (Inl e, s1) \<Rightarrow> (Inl e, s1)
                 | (Inr distances, s1) \<Rightarrow>
                     (case append_csv dest_path country_name distances s1 of
                        (Inl e, s2) \<Rightarrow> (Inl e, s2)
                      | (Inr _, s2) \<Rightarrow> (Inr [(OUTPUT, dest_path)], s2))))"

section \<open>The specification's words\<close>

text \<open>
  The per-layer distance as the specification states it: the sum of the measured lengths
  of the layer's features, converted to kilometers, rounded.
\<close>

definition spec_distance :: "'g host \<Rightarrow> 'g list \<Rightarrow> int" where
  "spec_distance h layer =
     py_round (convertLengthMeasurement h GRS80
       (as_float (py_sum h (map (measureLength h GRS80) layer))))"

text \<open>The raw sum of a layer, as a number, and what the host converts it to.\<close>

definition raw_sum :: "'g host \<Rightarrow> 'g list \<Rightarrow> real" where
  "raw_sum h layer = as_float (py_sum h (map (measureLength h GRS80) layer))"

definition converted_sum :: "'g host \<Rightarrow> 'g list \<Rightarrow> real" where
  "converted_sum h layer = convertLengthMeasurement h GRS80 (raw_sum h layer)"

text \<open>The messages of lines 167 and 204, and the state once the four layers are summed.\<close>

definition units_message :: "'g host \<Rightarrow> string" where
  "units_message h = ''Length units are '' @ lengthUnits h GRS80"

definition layer_message :: "'g host \<Rightarrow> string \<Rightarrow> 'g list \<Rightarrow> string" where
  "layer_message h name layer =
     name @ '' is '' @ str_num h (py_sum h (map (measureLength h GRS80) layer)) @ '' kilometers.''"

definition aggregated ::
  "'g host \<Rightarrow> 'g list \<Rightarrow> 'g list \<Rightarrow> 'g list \<Rightarrow> 'g list \<Rightarrow> 'g state \<Rightarrow> 'g state" where
  "aggregated h ta tm ka km s =
     s\<lparr>measured := measured s @ ta @ tm @ ka @ km,
       feedback := feedback s @
         [units_message h,
          layer_message h ''total_added'' ta, layer_message h ''total_modified'' tm,
          layer_message h ''kaart_added'' ka, layer_message h ''kaart_modified'' km]\<rparr>"

section \<open>Example invocations\<close>

text \<open>
  A host to run the algorithm on: a geometry is the list of the lengths of its segments in
  meters, sums and conversions to kilometers are exact, a float is rendered with one
  decimal (what Python prints for the values used with this host), and
  \<open>QgsProcessingAlgorithm\<close> has no attribute \<open>INPUT\<close>.
\<close>

definition demo_repr :: "real \<Rightarrow> string" where
  "demo_repr r = (let t = nat \<lfloor>r * 10\<rfloor> in str_nat (t div 10) @ ''.'' @ str_nat (t mod 10))"

definition demo_host :: "(real list) host" where
  "demo_host =
     \<lparr>measureLength = (\<lambda>ell g. sum_list g), lengthUnits = (\<lambda>ell. ''meters''),
      convertLengthMeasurement = (\<lambda>ell x. x / 1000), float_sum = sum_list,
      float_str = demo_repr,
      invalidSourceError = (\<lambda>n. ''Could not load source layer for '' @ n),
      base_attr = (\<lambda>a. None), Path_str = (\<lambda>p. p)\<rparr>"

definition demo_parameters :: "(real list) parameters" where
  "demo_parameters =
     \<lparr>parameterAsSource =
        [''TOTAL_ADDED'' \<mapsto> [[12000, 345.6], [2000]], ''TOTAL_MODIFIED'' \<mapsto> [],
         ''KAART_ADDED'' \<mapsto> [[12345.6]], ''KAART_MODIFIED'' \<mapsto> [[500], [1000]]],
      parameterAsString = (\<lambda>k. if k = ''COUNTRY_NAME'' then ''Ivory, Coast'' else []),
      parameterAsFileOutput = (\<lambda>k. if k = ''OUTPUT'' then ''/tmp/out.csv'' else [])\<rparr>"

text \<open>Other features with the same lengths, in the same order.\<close>

definition demo_parameters_same_lengths :: "(real list) parameters" where
  "demo_parameters_same_lengths =
     \<lparr>parameterAsSource =
        [''TOTAL_ADDED'' \<mapsto> [[12345.6], [1000, 1000]], ''TOTAL_MODIFIED'' \<mapsto> [],
         ''KAART_ADDED'' \<mapsto> [[12000, 345.6]], ''KAART_MODIFIED'' \<mapsto> [[250, 250], [1000]]],
      parameterAsString = (\<lambda>k. if k = ''COUNTRY_NAME'' then ''Ivory, Coast'' else []),
      parameterAsFileOutput = (\<lambda>k. if k = ''OUTPUT'' then ''/tmp/out.csv'' else ''/tmp/other'')\<rparr>"

text \<open>The layer "Kaart added" does not resolve.\<close>

definition demo_unresolved :: "(real list) parameters" where
  "demo_unresolved =
     \<lparr>parameterAsSource =
        [''TOTAL_ADDED'' \<mapsto> [[12000, 345.6], [2000]], ''TOTAL_MODIFIED'' \<mapsto> [],
         ''KAART_MODIFIED'' \<mapsto> [[500], [1000]]],
      parameterAsString = (\<lambda>k. if k = ''COUNTRY_NAME'' then ''Ivory, Coast'' else []),
      parameterAsFileOutput = (\<lambda>k. if k = ''OUTPUT'' then ''/tmp/out.csv'' else [])\<rparr>"

text \<open>No file yet; a file with a line in it, after an earlier run; a file of zero bytes.\<close>

definition demo_state :: "(real list) state" where
  "demo_state = \<lparr>feedback = [], measured = [], files = (\<lambda>p. Missing)\<rparr>"

definition demo_state_nonempty :: "(real list) state" where
  "demo_state_nonempty =
     \<lparr>feedback = [''an earlier message''], measured = [[1]],
      files = (\<lambda>p. if p = ''/tmp/out.csv'' then Regular ''old line'' else Missing)\<rparr>"

definition demo_state_empty :: "(real list) state" where
  "demo_state_empty =
     \<lparr>feedback = [''an earlier message''], measured = [[1]],
      files = (\<lambda>p. if p = ''/tmp/out.csv'' then Regular [] else Missing)\<rparr>"

text \<open>The same zero-byte file, with another past and other neighbours.\<close>

definition demo_state_elsewhere :: "(real list) state" where
  "demo_state_elsewhere =
     \<lparr>feedback = [], measured = [],
      files = (\<lambda>p. if p = ''/tmp/out.csv'' then Regular [] else Denied)\<rparr>"

text \<open>
  A host whose arithmetic is that of doubles on the lengths it is given here, each written
  as the fraction the double denotes:
  \<^item> the double 12345.6 is 6787065375935693 / 2^39, and multiplied by the double 0.001 it
    gives the double 12.345600000000001, which is 3474977472479075 / 2^48;
  \<^item> the double 513499.99999999994 is 8821862825983999 / 2^34, and multiplied by the
    double 0.001 it gives 513.5;
  \<^item> the doubles 500.0 and 2^-50 add to 500.0, which multiplied by 0.001 gives 0.5.
\<close>

definition double_host :: "(real list) host" where
  "double_host =
     \<lparr>measureLength = (\<lambda>ell g. sum_list g), lengthUnits = (\<lambda>ell. ''meters''),
      convertLengthMeasurement =
        (\<lambda>ell x. if x = 6787065375935693 / 549755813888 then 3474977472479075 / 281474976710656
                else if x = 8821862825983999 / 17179869184 then 1027 / 2
                else x / 1000),
      float_sum = (\<lambda>xs. if xs = [500, 1 / 1125899906842624] then 500 else sum_list xs),
      float_str =
        (\<lambda>r. if r = 6787065375935693 / 549755813888 then ''12345.6''
             else if r = 8821862825983999 / 17179869184 then ''513499.99999999994''
             else demo_repr r),
      invalidSourceError = (\<lambda>n. ''Could not load source layer for '' @ n),
      base_attr = (\<lambda>a. None), Path_str = (\<lambda>p. p)\<rparr>"

text \<open>
  One feature of 513499.99999999994 m, features of 500.0 m and 2^-50 m, one feature of
  12345.6 m, and a layer with no feature.
\<close>

definition double_parameters :: "(real list) parameters" where
  "double_parameters =
     \<lparr>parameterAsSource =
        [''TOTAL_ADDED'' \<mapsto> [[8821862825983999 / 17179869184]],
         ''TOTAL_MODIFIED'' \<mapsto> [[500], [1 / 1125899906842624]],
         ''KAART_ADDED'' \<mapsto> [[6787065375935693 / 549755813888]],
         ''KAART_MODIFIED'' \<mapsto> []],
      parameterAsString = (\<lambda>k. if k = ''COUNTRY_NAME'' then ''Ivory, Coast'' else []),
      parameterAsFileOutput = (\<lambda>k. if k = ''OUTPUT'' then ''/tmp/out.csv'' else [])\<rparr>"

section \<open>Properties of the parts\<close>

lemma py_sum_Nil: "py_sum h [] = PyInt 0"
  by (simp add: py_sum_def)

lemma py_round_0: "py_round 0 = 0"
  by (simp add: py_round_def)

lemma py_round_nearest: "\<bar>real_of_int (py_round x) - x\<bar> \<le> 1 / 2"
proof -
  have "real_of_int \<lfloor>x\<rfloor> \<le> x" and "x < real_of_int \<lfloor>x\<rfloor> + 1"
    by linarith+
  then show ?thesis
    by (auto simp: py_round_def Let_def)
qed

lemma py_round_between:
  assumes "real_of_int n \<le> x" and "x < real_of_int n + 1 / 2"
  shows "py_round x = n"
proof -
  have "\<lfloor>x\<rfloor> = n"
    using assms by linarith
  then show ?thesis
    using assms by (simp add: py_round_def Let_def)
qed

lemma aggregate_layer_eq:
  "aggregate_layer h name layer s =
     (spec_distance h layer,
      s\<lparr>measured := measured s @ layer, feedback := feedback s @ [layer_message h name layer]\<rparr>)"
  by (simp add: aggregate_layer_def spec_distance_def layer_message_def pushInfo_def Let_def)

lemma check_sources_unresolved:
  "None \<in> set vs \<Longrightarrow> check_sources h vs = Some (raise_invalid_source h)"
  by (induction vs) (auto split: option.splits)

lemma raise_invalid_source_no_INPUT:
  "base_attr h ''INPUT'' = None \<Longrightarrow> raise_invalid_source h = AttributeError ''INPUT''"
  by (simp add: raise_invalid_source_def getattr_def class_attrs_def)

lemma aggregate_resolved:
  assumes "parameterAsSource p TOTAL_ADDED = Some ta"
    and "parameterAsSource p TOTAL_MODIFIED = Some tm"
    and "parameterAsSource p KAART_ADDED = Some ka"
    and "parameterAsSource p KAART_MODIFIED = Some km"
  shows "aggregate h (sources_of p) Map.empty s =
     (Inr [''total_added'' \<mapsto> spec_distance h ta, ''total_modified'' \<mapsto> spec_distance h tm,
           ''kaart_added'' \<mapsto> spec_distance h ka, ''kaart_modified'' \<mapsto> spec_distance h km],
      s\<lparr>measured := measured s @ ta @ tm @ ka @ km,
        feedback := feedback s @
          [layer_message h ''total_added'' ta, layer_message h ''total_modified'' tm,
           layer_message h ''kaart_added'' ka, layer_message h ''kaart_modified'' km]\<rparr>)"
  by (simp add: sources_of_def assms aggregate_layer_eq)

lemma data_rows_resolved:
  "data_rows c [''total_added'' \<mapsto> d1, ''total_modified'' \<mapsto> d2,
           ''kaart_added'' \<mapsto> d3, ''kaart_modified'' \<mapsto> d4] =
   Inr [[S c, S ''Km of road added'', I d3, I d1],
        [S c, S ''Km of road edited or modified'', I d4, I d2]]"
  by (simp add: data_rows_def lookup_def)

lemma append_csv_Denied:
  "files s dest = Denied \<Longrightarrow> append_csv dest c ds s = (Inl (OSError dest), s)"
  by (simp add: append_csv_def)

lemma append_csv_opened:
  assumes "files s dest \<noteq> Denied"
  shows "append_csv dest c [''total_added'' \<mapsto> d1, ''total_modified'' \<mapsto> d2,
           ''kaart_added'' \<mapsto> d3, ''kaart_modified'' \<mapsto> d4] s =
     (Inr (), s\<lparr>files := (files s)(dest := Regular (contents (files s dest) @ writerows
        ((if contents (files s dest) = [] then [header_row] else []) @
         [[S c, S ''Km of road added'', I d3, I d1],
          [S c, S ''Km of road edited or modified'', I d4, I d2]])))\<rparr>)"
  using assms by (cases "files s dest") (simp_all add: append_csv_def data_rows_resolved)

lemma append_csv_keeps_log:
  "feedback (snd (append_csv dest c ds s)) = feedback s \<and>
   measured (snd (append_csv dest c ds s)) = measured s"
  by (cases "files s dest"; cases "data_rows c ds") (simp_all add: append_csv_def Let_def)

lemma append_csv_local:
  assumes "files s dest = files s' dest"
  shows "fst (append_csv dest c ds s) = fst (append_csv dest c ds s') \<and>
         files (snd (append_csv dest c ds s)) dest = files (snd (append_csv dest c ds s')) dest"
  using assms
  by (cases "files s' dest"; cases "data_rows c ds") (simp_all add: append_csv_def Let_def)

lemma files_aggregated: "files (aggregated h ta tm ka km s) = files s"
  by (simp add: aggregated_def)

lemma same_lengths_resolved:
  assumes "map_option f x = map_option f y" and "x = Some a"
  obtains b where "y = Some b" and "f a = f b"
  using assms by (cases y) auto

text \<open>What the writer makes of the cells of a data row: an integer is never quoted.\<close>

lemma needs_quote_append: "needs_quote (xs @ ys) = (needs_quote xs \<or> needs_quote ys)"
  by (auto simp: needs_quote_def)

lemma needs_quote_digit:
  assumes "d < 10"
  shows "\<not> needs_quote [digit_char d]"
proof -
  have "digit_char d \<in> set ''0123456789''"
    unfolding digit_char_def using assms by (intro nth_mem) simp
  then show ?thesis
    by (auto simp: needs_quote_def CR_def LF_def)
qed

lemma needs_quote_str_nat: "\<not> needs_quote (str_nat n)"
proof (induction n rule: str_nat.induct)
  case (1 n)
  show ?case
  proof (cases "n < 10")
    case True
    then have "str_nat n = [digit_char n]"
      by (subst str_nat.simps) simp
    with True show ?thesis
      by (simp add: needs_quote_digit)
  next
    case False
    then have "str_nat n = str_nat (n div 10) @ [digit_char (n mod 10)]"
      by (subst str_nat.simps) simp
    with False "1.IH" show ?thesis
      by (simp add: needs_quote_append needs_quote_digit)
  qed
qed

lemma needs_quote_str_int: "\<not> needs_quote (str_int i)"
proof -
  have "needs_quote (CHR ''-'' # xs) = needs_quote xs" for xs
    by (auto simp: needs_quote_def CR_def LF_def)
  then show ?thesis
    by (simp add: str_int_def needs_quote_str_nat)
qed

text \<open>
  A length within a millionth of 12345.6, divided by 1000 with the relative error of
  double multiplication, is within a hundred-millionth of 12.3456, and that rounds to 12.
\<close>

lemma metres_to_km_near:
  fixes x k :: real
  assumes "\<bar>x - 12345.6\<bar> \<le> 1 / 10 ^ 6"
    and "\<bar>k - x / 1000\<bar> \<le> \<bar>x\<bar> / 2 ^ 50"
  shows "\<bar>k - 12.3456\<bar> \<le> 1 / 10 ^ 8"
proof -
  from assms(1) have x: "12345.6 - 1 / 10 ^ 6 \<le> x" "x \<le> 12345.6 + 1 / 10 ^ 6"
    unfolding abs_diff_le_iff by blast+
  then have p: "0 \<le> x" and u: "x \<le> 12346"
    by simp_all
  from p assms(2) have "\<bar>k - x / 1000\<bar> \<le> x / 2 ^ 50"
    by simp
  then have k: "x / 1000 - x / 2 ^ 50 \<le> k" "k \<le> x / 1000 + x / 2 ^ 50"
    unfolding abs_diff_le_iff by blast+
  have "x / 2 ^ 50 \<le> 12346 / 2 ^ 50"
    using u by (simp add: divide_right_mono)
  also have "(12346::real) / 2 ^ 50 \<le> 1 / 10 ^ 9"
    by simp
  finally have s: "x / 2 ^ 50 \<le> 1 / 10 ^ 9" .
  have "12.3456 - 1 / 10 ^ 8 \<le> k" "k \<le> 12.3456 + 1 / 10 ^ 8"
    using x k s p by simp_all
  then show ?thesis
    unfolding abs_diff_le_iff by blast
qed

lemma py_round_near_12:
  fixes k :: real
  assumes "\<bar>k - 12.3456\<bar> \<le> 1 / 10 ^ 8"
  shows "py_round k = 12"
proof -
  from assms have "12.3456 - 1 / 10 ^ 8 \<le> k" "k \<le> 12.3456 + 1 / 10 ^ 8"
    unfolding abs_diff_le_iff by blast+
  then have "real_of_int 12 \<le> k" and "k < real_of_int 12 + 1 / 2"
    by simp_all
  then show ?thesis
    by (rule py_round_between)
qed

lemma spec_distance_converted: "spec_distance h layer = py_round (converted_sum h layer)"
  by (simp add: spec_distance_def converted_sum_def raw_sum_def)

section \<open>The two courses of processAlgorithm\<close>

lemma processAlgorithm_unresolved:
  assumes "parameterAsSource p TOTAL_ADDED = None \<or> parameterAsSource p TOTAL_MODIFIED = None
     \<or> parameterAsSource p KAART_ADDED = None \<or> parameterAsSource p KAART_MODIFIED = None"
  shows "processAlgorithm h p s =
     (Inl (raise_invalid_source h), s\<lparr>feedback := feedback s @ [units_message h]\<rparr>)"
proof -
  from assms have "None \<in> set (map snd (sources_of p))"
    by (auto simp: sources_of_def)
  then have "check_sources h (map snd (sources_of p)) = Some (raise_invalid_source h)"
    by (rule check_sources_unresolved)
  then show ?thesis
    by (simp add: processAlgorithm_def Let_def pushInfo_def units_message_def)
qed

lemma processAlgorithm_unresolved_no_INPUT:
  assumes "parameterAsSource p TOTAL_ADDED = None \<or> parameterAsSource p TOTAL_MODIFIED = None
     \<or> parameterAsSource p KAART_ADDED = None \<or> parameterAsSource p KAART_MODIFIED = None"
    and "base_attr h ''INPUT'' = None"
  shows "fst (processAlgorithm h p s) = Inl (AttributeError ''INPUT'')"
  by (simp add: processAlgorithm_unresolved [OF assms(1)] raise_invalid_source_no_INPUT [OF assms(2)])

lemma processAlgorithm_aggregates:
  assumes "parameterAsSource p TOTAL_ADDED = Some ta"
    and "parameterAsSource p TOTAL_MODIFIED = Some tm"
    and "parameterAsSource p KAART_ADDED = Some ka"
    and "parameterAsSource p KAART_MODIFIED = Some km"
  shows "processAlgorithm h p s =
     (case append_csv (Path_str h (parameterAsFileOutput p OUTPUT)) (parameterAsString p COUNTRY_NAME)
         [''total_added'' \<mapsto> spec_distance h ta, ''total_modified'' \<mapsto> spec_distance h tm,
           ''kaart_added'' \<mapsto> spec_distance h ka, ''kaart_modified'' \<mapsto> spec_distance h km]
         (aggregated h ta tm ka km s) of
        (Inl e, s2) \<Rightarrow> (Inl e, s2)
      | (Inr _, s2) \<Rightarrow> (Inr [(OUTPUT, Path_str h (parameterAsFileOutput p OUTPUT))], s2))"
proof -
  have c: "check_sources h (map snd (sources_of p)) = None"
    by (simp add: sources_of_def assms)
  have a: "aggregate h (sources_of p) Map.empty (pushInfo (units_message h) s) =
     (Inr [''total_added'' \<mapsto> spec_distance h ta, ''total_modified'' \<mapsto> spec_distance h tm,
           ''kaart_added'' \<mapsto> spec_distance h ka, ''kaart_modified'' \<mapsto> spec_distance h km],
      aggregated h ta tm ka km s)"
    by (simp add: aggregate_resolved [OF assms] aggregated_def pushInfo_def)
  show ?thesis
    unfolding processAlgorithm_def Let_def units_message_def [symmetric]
    by (simp only: c a option.case prod.case sum.case)
qed

lemma processAlgorithm_aggregates_state:
  assumes "parameterAsSource p TOTAL_ADDED = Some ta"
    and "parameterAsSource p TOTAL_MODIFIED = Some tm"
    and "parameterAsSource p KAART_ADDED = Some ka"
    and "parameterAsSource p KAART_MODIFIED = Some km"
  shows "snd (processAlgorithm h p s) =
     snd (append_csv (Path_str h (parameterAsFileOutput p OUTPUT)) (parameterAsString p COUNTRY_NAME)
         [''total_added'' \<mapsto> spec_distance h ta, ''total_modified'' \<mapsto> spec_distance h tm,
           ''kaart_added'' \<mapsto> spec_distance h ka, ''kaart_modified'' \<mapsto> spec_distance h km]
         (aggregated h ta tm ka km s))"
  unfolding processAlgorithm_aggregates [OF assms]
  by (auto split: prod.splits sum.splits)

lemma processAlgorithm_aggregates_result:
  assumes "parameterAsSource p TOTAL_ADDED = Some ta"
    and "parameterAsSource p TOTAL_MODIFIED = Some tm"
    and "parameterAsSource p KAART_ADDED = Some ka"
    and "parameterAsSource p KAART_MODIFIED = Some km"
  shows "fst (processAlgorithm h p s) =
     (case fst (append_csv (Path_str h (parameterAsFileOutput p OUTPUT))
         (parameterAsString p COUNTRY_NAME)
         [''total_added'' \<mapsto> spec_distance h ta, ''total_modified'' \<mapsto> spec_distance h tm,
           ''kaart_added'' \<mapsto> spec_distance h ka, ''kaart_modified'' \<mapsto> spec_distance h km]
         (aggregated h ta tm ka km s)) of
        Inl e \<Rightarrow> Inl e
      | Inr _ \<Rightarrow> Inr [(OUTPUT, Path_str h (parameterAsFileOutput p OUTPUT))])"
  unfolding processAlgorithm_aggregates [OF assms]
  by (auto split: prod.splits sum.splits)

lemma processAlgorithm_writes:
  assumes "parameterAsSource p TOTAL_ADDED = Some ta"
    and "parameterAsSource p TOTAL_MODIFIED = Some tm"
    and "parameterAsSource p KAART_ADDED = Some ka"
    and "parameterAsSource p KAART_MODIFIED = Some km"
    and "files s (Path_str h (parameterAsFileOutput p OUTPUT)) \<noteq> Denied"
  shows "processAlgorithm h p s =
     (Inr [(OUTPUT, Path_str h (parameterAsFileOutput p OUTPUT))],
      (aggregated h ta tm ka km s)
        \<lparr>files := (files s)(Path_str h (parameterAsFileOutput p OUTPUT) :=
           Regular (contents (files s (Path_str h (parameterAsFileOutput p OUTPUT))) @ writerows
             ((if contents (files s (Path_str h (parameterAsFileOutput p OUTPUT))) = []
               then [header_row] else []) @
              [[S (parameterAsString p COUNTRY_NAME), S ''Km of road added'',
                I (spec_distance h ka), I (spec_distance h ta)],
               [S (parameterAsString p COUNTRY_NAME), S ''Km of road edited or modified'',
                I (spec_distance h km), I (spec_distance h tm)]])))\<rparr>)"
proof -
  have "files (aggregated h ta tm ka km s) (Path_str h (parameterAsFileOutput p OUTPUT)) \<noteq> Denied"
    using assms(5) by (simp add: files_aggregated)
  from append_csv_opened [OF this] show ?thesis
    by (simp add: processAlgorithm_aggregates [OF assms(1-4)] files_aggregated)
qed

lemma processAlgorithm_denied:
  assumes "parameterAsSource p TOTAL_ADDED = Some ta"
    and "parameterAsSource p TOTAL_MODIFIED = Some tm"
    and "parameterAsSource p KAART_ADDED = Some ka"
    and "parameterAsSource p KAART_MODIFIED = Some km"
    and "files s (Path_str h (parameterAsFileOutput p OUTPUT)) = Denied"
  shows "processAlgorithm h p s =
     (Inl (OSError (Path_str h (parameterAsFileOutput p OUTPUT))), aggregated h ta tm ka km s)"
proof -
  have "files (aggregated h ta tm ka km s) (Path_str h (parameterAsFileOutput p OUTPUT)) = Denied"
    using assms(5) by (simp add: files_aggregated)
  from append_csv_Denied [OF this] show ?thesis
    by (simp add: processAlgorithm_aggregates [OF assms(1-4)])
qed

text \<open>The example inputs, resolved.\<close>

lemma demo_sources:
  "parameterAsSource demo_parameters TOTAL_ADDED = Some [[12000, 345.6], [2000]]"
  "parameterAsSource demo_parameters TOTAL_MODIFIED = Some []"
  "parameterAsSource demo_parameters KAART_ADDED = Some [[12345.6]]"
  "parameterAsSource demo_parameters KAART_MODIFIED = Some [[500], [1000]]"
  by (simp_all add: demo_parameters_def TOTAL_ADDED_def TOTAL_MODIFIED_def KAART_ADDED_def
      KAART_MODIFIED_def)

lemma demo_sources_same_lengths:
  "parameterAsSource demo_parameters_same_lengths TOTAL_ADDED = Some [[12345.6], [1000, 1000]]"
  "parameterAsSource demo_parameters_same_lengths TOTAL_MODIFIED = Some []"
  "parameterAsSource demo_parameters_same_lengths KAART_ADDED = Some [[12000, 345.6]]"
  "parameterAsSource demo_parameters_same_lengths KAART_MODIFIED = Some [[250, 250], [1000]]"
  by (simp_all add: demo_parameters_same_lengths_def TOTAL_ADDED_def TOTAL_MODIFIED_def
      KAART_ADDED_def KAART_MODIFIED_def)

lemma demo_unresolved_source: "parameterAsSource demo_unresolved KAART_ADDED = None"
  by (simp add: demo_unresolved_def KAART_ADDED_def)

lemma demo_strings:
  "parameterAsString demo_parameters COUNTRY_NAME = ''Ivory, Coast''"
  "parameterAsString demo_parameters_same_lengths COUNTRY_NAME = ''Ivory, Coast''"
  "Path_str demo_host (parameterAsFileOutput demo_parameters OUTPUT) = ''/tmp/out.csv''"
  "Path_str demo_host (parameterAsFileOutput demo_parameters_same_lengths OUTPUT) = ''/tmp/out.csv''"
  by (simp_all add: demo_parameters_def demo_parameters_same_lengths_def demo_host_def
      COUNTRY_NAME_def OUTPUT_def)

lemma demo_distances:
  "spec_distance demo_host [[12000, 345.6], [2000]] = 14"
  "spec_distance demo_host [] = 0"
  "spec_distance demo_host [[12345.6]] = 12"
  "spec_distance demo_host [[500], [1000]] = 2"
  by (simp_all add: spec_distance_def demo_host_def py_sum_def py_round_def Let_def)

lemma demo_rows:
  "csv_row header_row = ''Country,Data Change,Kaart,Total'' @ [CR, LF]"
  "csv_row [S ''Ivory, Coast'', S ''Km of road added'', I 12, I 14] =
     [CHR 0x22] @ ''Ivory, Coast'' @ [CHR 0x22] @ '',Km of road added,12,14'' @ [CR, LF]"
  "csv_row [S ''Ivory, Coast'', S ''Km of road edited or modified'', I 2, I 0] =
     [CHR 0x22] @ ''Ivory, Coast'' @ [CHR 0x22] @ '',Km of road edited or modified,2,0'' @ [CR, LF]"
  by (simp_all add: csv_row_def header_row_def csv_field_def needs_quote_def CR_def LF_def
      str_int_def str_nat.simps digit_char_def Let_def)

text \<open>The invocation in double arithmetic.\<close>

lemma double_sources:
  "parameterAsSource double_parameters TOTAL_ADDED = Some [[8821862825983999 / 17179869184]]"
  "parameterAsSource double_parameters TOTAL_MODIFIED = Some [[500], [1 / 1125899906842624]]"
  "parameterAsSource double_parameters KAART_ADDED = Some [[6787065375935693 / 549755813888]]"
  "parameterAsSource double_parameters KAART_MODIFIED = Some []"
  by (simp_all add: double_parameters_def TOTAL_ADDED_def TOTAL_MODIFIED_def KAART_ADDED_def
      KAART_MODIFIED_def)

lemma double_strings:
  "parameterAsString double_parameters COUNTRY_NAME = ''Ivory, Coast''"
  "Path_str double_host (parameterAsFileOutput double_parameters OUTPUT) = ''/tmp/out.csv''"
  by (simp_all add: double_parameters_def double_host_def COUNTRY_NAME_def OUTPUT_def)

section \<open>Input validation\<close>

text \<open>
  Claim C1. If any of the four input layer sources resolves to null, the algorithm raises
  a fatal error before any length is measured and before the output file is opened or
  written: the invocation ends in an exception, no geometry has been measured, the file
  system is as it was, and the only message is the one about the length units.
\<close>

theorem unresolved_source_fails_before_any_work:
  assumes "parameterAsSource p TOTAL_ADDED = None \<or> parameterAsSource p TOTAL_MODIFIED = None
     \<or> parameterAsSource p KAART_ADDED = None \<or> parameterAsSource p KAART_MODIFIED = None"
  shows "(\<exists>e. fst (processAlgorithm h p s) = Inl e)
     \<and> measured (snd (processAlgorithm h p s)) = measured s
     \<and> files (snd (processAlgorithm h p s)) = files s
     \<and> feedback (snd (processAlgorithm h p s)) = feedback s @ [units_message h]"
  by (simp add: processAlgorithm_unresolved [OF assms])

theorem unresolved_source_fails_before_any_work_witness:
  "parameterAsSource demo_unresolved KAART_ADDED = None
     \<and> (\<exists>e. fst (processAlgorithm demo_host demo_unresolved demo_state_nonempty) = Inl e)
     \<and> measured (snd (processAlgorithm demo_host demo_unresolved demo_state_nonempty)) = [[1]]
     \<and> files (snd (processAlgorithm demo_host demo_unresolved demo_state_nonempty)) ''/tmp/out.csv''
         = Regular ''old line''
     \<and> feedback (snd (processAlgorithm demo_host demo_unresolved demo_state_nonempty))
         = [''an earlier message'', ''Length units are meters'']"
proof -
  have u: "parameterAsSource demo_unresolved TOTAL_ADDED = None
     \<or> parameterAsSource demo_unresolved TOTAL_MODIFIED = None
     \<or> parameterAsSource demo_unresolved KAART_ADDED = None
     \<or> parameterAsSource demo_unresolved KAART_MODIFIED = None"
    by (simp add: demo_unresolved_source)
  show ?thesis
    using unresolved_source_fails_before_any_work [OF u, of demo_host demo_state_nonempty]
    by (simp add: demo_unresolved_source demo_state_nonempty_def units_message_def demo_host_def)
qed

text \<open>
  Claim C2. When an input source fails to resolve, the error raised should be a
  \<open>QgsProcessingException\<close> carrying the \<open>invalidSourceError\<close> text. The code does not
  get there: the argument of the \<open>raise\<close> reads \<open>self.INPUT\<close>, which the class does not
  bind, so on a host whose base class has no such attribute the invocation ends in
  \<open>AttributeError\<close>. Here the layer "Kaart added" does not resolve.
\<close>

theorem unresolved_source_raises_AttributeError:
  "fst (processAlgorithm demo_host demo_unresolved demo_state) = Inl (AttributeError ''INPUT'')
   \<and> fst (processAlgorithm demo_host demo_unresolved demo_state)
       \<noteq> Inl (QgsProcessingException (invalidSourceError demo_host ''INPUT''))"
proof -
  have u: "parameterAsSource demo_unresolved TOTAL_ADDED = None
     \<or> parameterAsSource demo_unresolved TOTAL_MODIFIED = None
     \<or> parameterAsSource demo_unresolved KAART_ADDED = None
     \<or> parameterAsSource demo_unresolved KAART_MODIFIED = None"
    by (simp add: demo_unresolved_source)
  have "base_attr demo_host ''INPUT'' = None"
    by (simp add: demo_host_def)
  from processAlgorithm_unresolved_no_INPUT [OF u this] show ?thesis
    by simp
qed

section \<open>Length aggregation\<close>

text \<open>
  Claim C3. For every layer, the distance written to the CSV file is
  round(convert_to_km(sum of the geodesic lengths of the layer's features, measured on
  ellipsoid GRS80)), the sum and the conversion being those of double arithmetic: the two
  lines appended hold that value for the four layers, each in its column. The sum of a
  layer with no feature is exactly the integer 0, and on a host that converts the length
  0 to 0 its distance is 0.
\<close>

theorem written_distance_is_rounded_km_of_sum:
  assumes "parameterAsSource p TOTAL_ADDED = Some ta"
    and "parameterAsSource p TOTAL_MODIFIED = Some tm"
    and "parameterAsSource p KAART_ADDED = Some ka"
    and "parameterAsSource p KAART_MODIFIED = Some km"
    and "files s (Path_str h (parameterAsFileOutput p OUTPUT)) \<noteq> Denied"
  shows "files (snd (processAlgorithm h p s)) (Path_str h (parameterAsFileOutput p OUTPUT)) =
     Regular (contents (files s (Path_str h (parameterAsFileOutput p OUTPUT)))
       @ (if contents (files s (Path_str h (parameterAsFileOutput p OUTPUT))) = []
          then ''Country,Data Change,Kaart,Total'' @ [CR, LF] else [])
       @ csv_field (S (parameterAsString p COUNTRY_NAME)) @ '',Km of road added,''
       @ str_int (py_round (convertLengthMeasurement h ''GRS80''
           (as_float (py_sum h (map (measureLength h ''GRS80'') ka)))))
       @ '',''
       @ str_int (py_round (convertLengthMeasurement h ''GRS80''
           (as_float (py_sum h (map (measureLength h ''GRS80'') ta)))))
       @ [CR, LF]
       @ csv_field (S (parameterAsString p COUNTRY_NAME)) @ '',Km of road edited or modified,''
       @ str_int (py_round (convertLengthMeasurement h ''GRS80''
           (as_float (py_sum h (map (measureLength h ''GRS80'') km)))))
       @ '',''
       @ str_int (py_round (convertLengthMeasurement h ''GRS80''
           (as_float (py_sum h (map (measureLength h ''GRS80'') tm)))))
       @ [CR, LF])
     \<and> py_sum h (map (measureLength h ''GRS80'') []) = PyInt 0
     \<and> (convertLengthMeasurement h ''GRS80'' 0 = 0 \<longrightarrow>
          py_round (convertLengthMeasurement h ''GRS80''
            (as_float (py_sum h (map (measureLength h ''GRS80'') [])))) = 0)"
proof -
  have ints: "csv_field (I i) = str_int i" for i
    by (simp add: csv_field_def needs_quote_str_int)
  have labels: "csv_field (S ''Km of road added'') = ''Km of road added''"
    "csv_field (S ''Km of road edited or modified'') = ''Km of road edited or modified''"
    "csv_field (S ''Country'') = ''Country''" "csv_field (S ''Data Change'') = ''Data Change''"
    "csv_field (S ''Kaart'') = ''Kaart''" "csv_field (S ''Total'') = ''Total''"
    by (simp_all add: csv_field_def needs_quote_def CR_def LF_def)
  have empty: "py_sum h [] = PyInt 0"
    by (simp add: py_sum_def)
  have zero: "py_round 0 = 0"
    by (simp add: py_round_def)
  show ?thesis
    by (simp add: processAlgorithm_writes [OF assms] writerows_def csv_row_def header_row_def
        ints labels spec_distance_def GRS80_def empty zero)
qed

theorem written_distance_is_rounded_km_of_sum_witness:
  "files demo_state_nonempty ''/tmp/out.csv'' \<noteq> Denied
   \<and> convertLengthMeasurement double_host ''GRS80'' 0 = 0
   \<and> files (snd (processAlgorithm double_host double_parameters demo_state_nonempty))
         ''/tmp/out.csv'' =
       Regular (''old line''
         @ [CHR 0x22] @ ''Ivory, Coast'' @ [CHR 0x22] @ '',Km of road added,12,514'' @ [CR, LF]
         @ [CHR 0x22] @ ''Ivory, Coast'' @ [CHR 0x22] @ '',Km of road edited or modified,0,0''
         @ [CR, LF])
   \<and> py_round (convertLengthMeasurement double_host ''GRS80''
         (as_float (py_sum double_host (map (measureLength double_host ''GRS80'') [])))) = 0"
proof -
  have f: "files demo_state_nonempty
      (Path_str double_host (parameterAsFileOutput double_parameters OUTPUT)) \<noteq> Denied"
    by (simp add: demo_state_nonempty_def double_strings)
  have z: "convertLengthMeasurement double_host ''GRS80'' 0 = 0"
    by (simp add: double_host_def)
  have d: "py_round (convertLengthMeasurement double_host ''GRS80'' (as_float (py_sum double_host
        (map (measureLength double_host ''GRS80'') [[6787065375935693 / 549755813888]])))) = 12"
    "py_round (convertLengthMeasurement double_host ''GRS80'' (as_float (py_sum double_host
        (map (measureLength double_host ''GRS80'') [[8821862825983999 / 17179869184]])))) = 514"
    "py_round (convertLengthMeasurement double_host ''GRS80'' (as_float (py_sum double_host
        (map (measureLength double_host ''GRS80'') [])))) = 0"
    "py_round (convertLengthMeasurement double_host ''GRS80'' (as_float (py_sum double_host
        (map (measureLength double_host ''GRS80'') [[500], [1 / 1125899906842624]])))) = 0"
    by (simp_all add: double_host_def py_sum_def py_round_def Let_def)
  have t: "str_int 12 = ''12''" "str_int 514 = ''514''" "str_int 0 = ''0''"
    "csv_field (S ''Ivory, Coast'') = [CHR 0x22] @ ''Ivory, Coast'' @ [CHR 0x22]"
    by (simp_all add: str_int_def str_nat.simps digit_char_def csv_field_def needs_quote_def
        CR_def LF_def)
  show ?thesis
    using written_distance_is_rounded_km_of_sum [OF double_sources f, unfolded double_strings d t]
      z d(3)
    by (simp add: demo_state_nonempty_def contents_def)
qed

text \<open>
  Claim C4. The four layers are processed in the fixed order total_added, total_modified,
  kaart_added, kaart_modified, and each gives one informational message reporting the
  layer's raw sum of lengths, not the converted one: after the message about the units come
  exactly these four, in this order, and the geometries are measured layer by layer in
  the same order.
\<close>

theorem layers_aggregated_in_fixed_order:
  assumes "parameterAsSource p TOTAL_ADDED = Some ta"
    and "parameterAsSource p TOTAL_MODIFIED = Some tm"
    and "parameterAsSource p KAART_ADDED = Some ka"
    and "parameterAsSource p KAART_MODIFIED = Some km"
  shows "feedback (snd (processAlgorithm h p s)) = feedback s @
       [''Length units are '' @ lengthUnits h ''GRS80'',
        ''total_added is '' @ str_num h (py_sum h (map (measureLength h ''GRS80'') ta))
           @ '' kilometers.'',
        ''total_modified is '' @ str_num h (py_sum h (map (measureLength h ''GRS80'') tm))
           @ '' kilometers.'',
        ''kaart_added is '' @ str_num h (py_sum h (map (measureLength h ''GRS80'') ka))
           @ '' kilometers.'',
        ''kaart_modified is '' @ str_num h (py_sum h (map (measureLength h ''GRS80'') km))
           @ '' kilometers.'']
     \<and> measured (snd (processAlgorithm h p s)) = measured s @ ta @ tm @ ka @ km"
proof -
  have "feedback (snd (processAlgorithm h p s)) = feedback (aggregated h ta tm ka km s)
      \<and> measured (snd (processAlgorithm h p s)) = measured (aggregated h ta tm ka km s)"
    by (simp only: processAlgorithm_aggregates_state [OF assms] append_csv_keeps_log)
  then show ?thesis
    by (simp add: aggregated_def units_message_def layer_message_def GRS80_def)
qed

theorem layers_aggregated_in_fixed_order_witness:
  "feedback (snd (processAlgorithm demo_host demo_parameters demo_state)) =
       [''Length units are meters'',
        ''total_added is 14345.6 kilometers.'',
        ''total_modified is 0 kilometers.'',
        ''kaart_added is 12345.6 kilometers.'',
        ''kaart_modified is 1500.0 kilometers.'']
   \<and> measured (snd (processAlgorithm demo_host demo_parameters demo_state)) =
       [[12000, 345.6], [2000], [12345.6], [500], [1000]]"
  using layers_aggregated_in_fixed_order [OF demo_sources, of demo_host demo_state]
  by (simp add: demo_state_def demo_host_def py_sum_def demo_repr_def str_int_def
      str_nat.simps digit_char_def Let_def)

section \<open>CSV append\<close>

text \<open>
  Claim C5. For a fresh or nonexistent output path, one invocation writes exactly three
  CSV rows, in this order: the header ("Country", "Data Change", "Kaart", "Total"), then
  (country_name, "Km of road added", kaart_added, total_added), then
  (country_name, "Km of road edited or modified", kaart_modified, total_modified).
\<close>

theorem fresh_path_gets_header_and_two_rows:
  assumes "parameterAsSource p TOTAL_ADDED = Some ta"
    and "parameterAsSource p TOTAL_MODIFIED = Some tm"
    and "parameterAsSource p KAART_ADDED = Some ka"
    and "parameterAsSource p KAART_MODIFIED = Some km"
    and "files s (Path_str h (parameterAsFileOutput p OUTPUT)) = Missing"
  shows "files (snd (processAlgorithm h p s)) (Path_str h (parameterAsFileOutput p OUTPUT)) =
     Regular (writerows
       [[S ''Country'', S ''Data Change'', S ''Kaart'', S ''Total''],
        [S (parameterAsString p COUNTRY_NAME), S ''Km of road added'',
         I (spec_distance h ka), I (spec_distance h ta)],
        [S (parameterAsString p COUNTRY_NAME), S ''Km of road edited or modified'',
         I (spec_distance h km), I (spec_distance h tm)]])"
proof -
  have "files s (Path_str h (parameterAsFileOutput p OUTPUT)) \<noteq> Denied"
    using assms(5) by simp
  from processAlgorithm_writes [OF assms(1-4) this] show ?thesis
    by (simp add: assms(5) contents_def header_row_def)
qed

theorem fresh_path_gets_header_and_two_rows_witness:
  "files demo_state ''/tmp/out.csv'' = Missing
   \<and> files (snd (processAlgorithm demo_host demo_parameters demo_state)) ''/tmp/out.csv'' =
       Regular (''Country,Data Change,Kaart,Total'' @ [CR, LF]
         @ [CHR 0x22] @ ''Ivory, Coast'' @ [CHR 0x22] @ '',Km of road added,12,14'' @ [CR, LF]
         @ [CHR 0x22] @ ''Ivory, Coast'' @ [CHR 0x22] @ '',Km of road edited or modified,2,0''
         @ [CR, LF])"
proof -
  have f: "files demo_state (Path_str demo_host (parameterAsFileOutput demo_parameters OUTPUT))
      = Missing"
    by (simp add: demo_state_def)
  have "csv_row [S ''Country'', S ''Data Change'', S ''Kaart'', S ''Total'']
      = ''Country,Data Change,Kaart,Total'' @ [CR, LF]"
    using demo_rows(1) by (simp add: header_row_def)
  then show ?thesis
    using fresh_path_gets_header_and_two_rows
      [OF demo_sources f, unfolded demo_strings demo_distances] demo_rows(2,3)
    by (simp add: demo_state_def writerows_def)
qed

text \<open>
  Claim C6. For every existing non-empty output file, one invocation appends exactly two
  data rows and no header, and what the file held before is left as it was: the file is
  never truncated, only appended to. No other path of the file system changes.
\<close>

theorem nonempty_file_gets_two_rows_appended:
  assumes "parameterAsSource p TOTAL_ADDED = Some ta"
    and "parameterAsSource p TOTAL_MODIFIED = Some tm"
    and "parameterAsSource p KAART_ADDED = Some ka"
    and "parameterAsSource p KAART_MODIFIED = Some km"
    and "files s (Path_str h (parameterAsFileOutput p OUTPUT)) = Regular old"
    and "old \<noteq> []"
  shows "files (snd (processAlgorithm h p s)) (Path_str h (parameterAsFileOutput p OUTPUT)) =
     Regular (old @ writerows
       [[S (parameterAsString p COUNTRY_NAME), S ''Km of road added'',
         I (spec_distance h ka), I (spec_distance h ta)],
        [S (parameterAsString p COUNTRY_NAME), S ''Km of road edited or modified'',
         I (spec_distance h km), I (spec_distance h tm)]])
     \<and> (\<forall>q. q \<noteq> Path_str h (parameterAsFileOutput p OUTPUT)
          \<longrightarrow> files (snd (processAlgorithm h p s)) q = files s q)"
proof -
  have "files s (Path_str h (parameterAsFileOutput p OUTPUT)) \<noteq> Denied"
    using assms(5) by simp
  from processAlgorithm_writes [OF assms(1-4) this] show ?thesis
    by (simp add: assms(5,6) contents_def files_aggregated)
qed

theorem nonempty_file_gets_two_rows_appended_witness:
  "files demo_state_nonempty ''/tmp/out.csv'' = Regular ''old line'' \<and> ''old line'' \<noteq> []
   \<and> files (snd (processAlgorithm demo_host demo_parameters demo_state_nonempty)) ''/tmp/out.csv'' =
       Regular (''old line''
         @ [CHR 0x22] @ ''Ivory, Coast'' @ [CHR 0x22] @ '',Km of road added,12,14'' @ [CR, LF]
         @ [CHR 0x22] @ ''Ivory, Coast'' @ [CHR 0x22] @ '',Km of road edited or modified,2,0''
         @ [CR, LF])
   \<and> files (snd (processAlgorithm demo_host demo_parameters demo_state_nonempty)) ''/tmp/other''
       = Missing"
proof -
  have f: "files demo_state_nonempty
      (Path_str demo_host (parameterAsFileOutput demo_parameters OUTPUT)) = Regular ''old line''"
    by (simp add: demo_state_nonempty_def demo_strings)
  have n: "''old line'' \<noteq> []"
    by simp
  show ?thesis
    using nonempty_file_gets_two_rows_appended
      [OF demo_sources f n, unfolded demo_strings demo_distances] demo_rows(2,3)
    by (simp add: demo_state_nonempty_def writerows_def)
qed

text \<open>
  Claim C7. For an existing zero-byte output file, one invocation writes the header row
  and then the two data rows. Whether the header is written depends only on the write
  position right after opening in append mode, that is on the length of what the file
  holds: the messages and measurements of earlier invocations, which the state carries,
  play no part.
\<close>

theorem empty_file_gets_header_by_position:
  assumes "parameterAsSource p TOTAL_ADDED = Some ta"
    and "parameterAsSource p TOTAL_MODIFIED = Some tm"
    and "parameterAsSource p KAART_ADDED = Some ka"
    and "parameterAsSource p KAART_MODIFIED = Some km"
    and "files s (Path_str h (parameterAsFileOutput p OUTPUT)) \<noteq> Denied"
  shows "files (snd (processAlgorithm h p s)) (Path_str h (parameterAsFileOutput p OUTPUT)) =
     Regular (contents (files s (Path_str h (parameterAsFileOutput p OUTPUT)))
       @ (if length (contents (files s (Path_str h (parameterAsFileOutput p OUTPUT)))) = 0
          then csv_row [S ''Country'', S ''Data Change'', S ''Kaart'', S ''Total''] else [])
       @ csv_row [S (parameterAsString p COUNTRY_NAME), S ''Km of road added'',
           I (spec_distance h ka), I (spec_distance h ta)]
       @ csv_row [S (parameterAsString p COUNTRY_NAME), S ''Km of road edited or modified'',
           I (spec_distance h km), I (spec_distance h tm)])
     \<and> (files s (Path_str h (parameterAsFileOutput p OUTPUT)) = Regular [] \<longrightarrow>
        files (snd (processAlgorithm h p s)) (Path_str h (parameterAsFileOutput p OUTPUT)) =
          Regular (csv_row [S ''Country'', S ''Data Change'', S ''Kaart'', S ''Total'']
            @ csv_row [S (parameterAsString p COUNTRY_NAME), S ''Km of road added'',
                I (spec_distance h ka), I (spec_distance h ta)]
            @ csv_row [S (parameterAsString p COUNTRY_NAME), S ''Km of road edited or modified'',
                I (spec_distance h km), I (spec_distance h tm)]))"
  by (simp add: processAlgorithm_writes [OF assms] contents_def header_row_def writerows_def)

theorem empty_file_gets_header_by_position_witness:
  "files demo_state_empty ''/tmp/out.csv'' = Regular []
   \<and> feedback demo_state_empty \<noteq> []
   \<and> files (snd (processAlgorithm demo_host demo_parameters demo_state_empty)) ''/tmp/out.csv'' =
       Regular (''Country,Data Change,Kaart,Total'' @ [CR, LF]
         @ [CHR 0x22] @ ''Ivory, Coast'' @ [CHR 0x22] @ '',Km of road added,12,14'' @ [CR, LF]
         @ [CHR 0x22] @ ''Ivory, Coast'' @ [CHR 0x22] @ '',Km of road edited or modified,2,0''
         @ [CR, LF])"
proof -
  have f: "files demo_state_empty
      (Path_str demo_host (parameterAsFileOutput demo_parameters OUTPUT)) \<noteq> Denied"
    by (simp add: demo_state_empty_def demo_strings)
  have e: "files demo_state_empty ''/tmp/out.csv'' = Regular []"
    by (simp add: demo_state_empty_def)
  have r: "csv_row [S ''Country'', S ''Data Change'', S ''Kaart'', S ''Total'']
      = ''Country,Data Change,Kaart,Total'' @ [CR, LF]"
    using demo_rows(1) by (simp add: header_row_def)
  show ?thesis
    using empty_file_gets_header_by_position
      [OF demo_sources f, unfolded demo_strings demo_distances e]
    by (simp add: e r demo_rows(2,3) contents_def) (simp add: demo_state_empty_def)
qed

section \<open>Rounding, result and determinism\<close>

text \<open>
  Claim C8. Each per-layer sum, converted to kilometers, is rounded to the nearest integer
  before it is written: the integer in each of the four fields of the appended lines is
  at most one half away from the converted sum of its layer. In particular, when the raw
  sum of the layer "Kaart added" is 12345.6 m and the host converts meters to kilometers
  (both to the accuracy of doubles), the converted sum is 12.3456 km, it rounds to 12,
  and the "Kaart" field of the line "Km of road added" is the text 12.
\<close>

theorem converted_sum_rounded_to_nearest_integer:
  assumes "parameterAsSource p TOTAL_ADDED = Some ta"
    and "parameterAsSource p TOTAL_MODIFIED = Some tm"
    and "parameterAsSource p KAART_ADDED = Some ka"
    and "parameterAsSource p KAART_MODIFIED = Some km"
    and "files s (Path_str h (parameterAsFileOutput p OUTPUT)) \<noteq> Denied"
  shows "files (snd (processAlgorithm h p s)) (Path_str h (parameterAsFileOutput p OUTPUT)) =
     Regular (contents (files s (Path_str h (parameterAsFileOutput p OUTPUT)))
       @ (if contents (files s (Path_str h (parameterAsFileOutput p OUTPUT))) = []
          then ''Country,Data Change,Kaart,Total'' @ [CR, LF] else [])
       @ csv_field (S (parameterAsString p COUNTRY_NAME)) @ '',Km of road added,''
       @ str_int (spec_distance h ka) @ '','' @ str_int (spec_distance h ta) @ [CR, LF]
       @ csv_field (S (parameterAsString p COUNTRY_NAME)) @ '',Km of road edited or modified,''
       @ str_int (spec_distance h km) @ '','' @ str_int (spec_distance h tm) @ [CR, LF])
     \<and> \<bar>real_of_int (spec_distance h ta) - converted_sum h ta\<bar> \<le> 1 / 2
     \<and> \<bar>real_of_int (spec_distance h tm) - converted_sum h tm\<bar> \<le> 1 / 2
     \<and> \<bar>real_of_int (spec_distance h ka) - converted_sum h ka\<bar> \<le> 1 / 2
     \<and> \<bar>real_of_int (spec_distance h km) - converted_sum h km\<bar> \<le> 1 / 2
     \<and> (\<bar>raw_sum h ka - 12345.6\<bar> \<le> 1 / 10 ^ 6
          \<and> \<bar>converted_sum h ka - raw_sum h ka / 1000\<bar> \<le> \<bar>raw_sum h ka\<bar> / 2 ^ 50
        \<longrightarrow> \<bar>converted_sum h ka - 12.3456\<bar> \<le> 1 / 10 ^ 8
          \<and> spec_distance h ka = 12
          \<and> str_int (spec_distance h ka) = ''12'')"
proof -
  have near: "\<bar>real_of_int (spec_distance h layer) - converted_sum h layer\<bar> \<le> 1 / 2" for layer
    by (simp only: spec_distance_converted py_round_nearest)
  have scenario: "\<bar>converted_sum h ka - 12.3456\<bar> \<le> 1 / 10 ^ 8
      \<and> spec_distance h ka = 12 \<and> str_int (spec_distance h ka) = ''12''"
    if r: "\<bar>raw_sum h ka - 12345.6\<bar> \<le> 1 / 10 ^ 6"
      and c: "\<bar>converted_sum h ka - raw_sum h ka / 1000\<bar> \<le> \<bar>raw_sum h ka\<bar> / 2 ^ 50"
  proof -
    from r c have k: "\<bar>converted_sum h ka - 12.3456\<bar> \<le> 1 / 10 ^ 8"
      by (rule metres_to_km_near)
    then have "py_round (converted_sum h ka) = 12"
      by (rule py_round_near_12)
    then have d: "spec_distance h ka = 12"
      by (simp only: spec_distance_converted)
    have "str_int 12 = ''12''"
      by (simp add: str_int_def str_nat.simps digit_char_def)
    with k d show ?thesis
      by simp
  qed
  have ints: "csv_field (I i) = str_int i" for i
    by (simp add: csv_field_def needs_quote_str_int)
  have labels: "csv_field (S ''Km of road added'') = ''Km of road added''"
    "csv_field (S ''Km of road edited or modified'') = ''Km of road edited or modified''"
    "csv_field (S ''Country'') = ''Country''" "csv_field (S ''Data Change'') = ''Data Change''"
    "csv_field (S ''Kaart'') = ''Kaart''" "csv_field (S ''Total'') = ''Total''"
    by (simp_all add: csv_field_def needs_quote_def CR_def LF_def)
  have "files (snd (processAlgorithm h p s)) (Path_str h (parameterAsFileOutput p OUTPUT)) =
     Regular (contents (files s (Path_str h (parameterAsFileOutput p OUTPUT)))
       @ (if contents (files s (Path_str h (parameterAsFileOutput p OUTPUT))) = []
          then ''Country,Data Change,Kaart,Total'' @ [CR, LF] else [])
       @ csv_field (S (parameterAsString p COUNTRY_NAME)) @ '',Km of road added,''
       @ str_int (spec_distance h ka) @ '','' @ str_int (spec_distance h ta) @ [CR, LF]
       @ csv_field (S (parameterAsString p COUNTRY_NAME)) @ '',Km of road edited or modified,''
       @ str_int (spec_distance h km) @ '','' @ str_int (spec_distance h tm) @ [CR, LF])"
    by (simp add: processAlgorithm_writes [OF assms] writerows_def csv_row_def header_row_def
        ints labels)
  with near scenario show ?thesis
    by blast
qed

theorem converted_sum_rounded_to_nearest_integer_witness:
  "files demo_state_nonempty ''/tmp/out.csv'' \<noteq> Denied
   \<and> \<bar>raw_sum double_host [[6787065375935693 / 549755813888]] - 12345.6\<bar> \<le> 1 / 10 ^ 6
   \<and> \<bar>converted_sum double_host [[6787065375935693 / 549755813888]]
        - raw_sum double_host [[6787065375935693 / 549755813888]] / 1000\<bar>
       \<le> \<bar>raw_sum double_host [[6787065375935693 / 549755813888]]\<bar> / 2 ^ 50
   \<and> converted_sum double_host [[6787065375935693 / 549755813888]]
       = 3474977472479075 / 281474976710656
   \<and> \<bar>converted_sum double_host [[6787065375935693 / 549755813888]] - 12.3456\<bar>
       \<le> 1 / 10 ^ 8
   \<and> converted_sum double_host [[8821862825983999 / 17179869184]] = 513.5
   \<and> files (snd (processAlgorithm double_host double_parameters demo_state_nonempty))
         ''/tmp/out.csv'' =
       Regular (''old line''
         @ [CHR 0x22] @ ''Ivory, Coast'' @ [CHR 0x22] @ '',Km of road added,12,514'' @ [CR, LF]
         @ [CHR 0x22] @ ''Ivory, Coast'' @ [CHR 0x22] @ '',Km of road edited or modified,0,0''
         @ [CR, LF])"
proof -
  have f: "files demo_state_nonempty
      (Path_str double_host (parameterAsFileOutput double_parameters OUTPUT)) \<noteq> Denied"
    by (simp add: demo_state_nonempty_def double_strings)
  have r: "\<bar>raw_sum double_host [[6787065375935693 / 549755813888]] - 12345.6\<bar> \<le> 1 / 10 ^ 6"
    by (simp add: raw_sum_def py_sum_def double_host_def)
  have c: "\<bar>converted_sum double_host [[6787065375935693 / 549755813888]]
        - raw_sum double_host [[6787065375935693 / 549755813888]] / 1000\<bar>
       \<le> \<bar>raw_sum double_host [[6787065375935693 / 549755813888]]\<bar> / 2 ^ 50"
    by (simp add: converted_sum_def raw_sum_def py_sum_def double_host_def)
  have v: "converted_sum double_host [[6787065375935693 / 549755813888]]
       = 3474977472479075 / 281474976710656"
    "converted_sum double_host [[8821862825983999 / 17179869184]] = 513.5"
    by (simp_all add: converted_sum_def raw_sum_def py_sum_def double_host_def)
  have d: "spec_distance double_host [[6787065375935693 / 549755813888]] = 12"
    "spec_distance double_host [[8821862825983999 / 17179869184]] = 514"
    "spec_distance double_host [] = 0"
    "spec_distance double_host [[500], [1 / 1125899906842624]] = 0"
    by (simp_all add: spec_distance_def double_host_def py_sum_def py_round_def Let_def)
  have t: "str_int 12 = ''12''" "str_int 514 = ''514''" "str_int 0 = ''0''"
    "csv_field (S ''Ivory, Coast'') = [CHR 0x22] @ ''Ivory, Coast'' @ [CHR 0x22]"
    by (simp_all add: str_int_def str_nat.simps digit_char_def csv_field_def needs_quote_def
        CR_def LF_def)
  note w = converted_sum_rounded_to_nearest_integer [OF double_sources f]
  from w r c have k: "\<bar>converted_sum double_host [[6787065375935693 / 549755813888]] - 12.3456\<bar>
      \<le> 1 / 10 ^ 8"
    by blast
  have b: "files (snd (processAlgorithm double_host double_parameters demo_state_nonempty))
         ''/tmp/out.csv'' =
       Regular (''old line''
         @ [CHR 0x22] @ ''Ivory, Coast'' @ [CHR 0x22] @ '',Km of road added,12,514'' @ [CR, LF]
         @ [CHR 0x22] @ ''Ivory, Coast'' @ [CHR 0x22] @ '',Km of road edited or modified,0,0''
         @ [CR, LF])"
    using w [unfolded double_strings d t]
    by (simp add: demo_state_nonempty_def contents_def)
  from f r c v k b show ?thesis
    by (simp only: double_strings simp_thms)
qed

text \<open>
  Claim C9. On every successful invocation, that is when the four sources resolve and the
  file can be opened and written, the algorithm returns the output file path to the
  caller, under the key \<open>OUTPUT\<close>.
\<close>

theorem successful_invocation_returns_output_path:
  assumes "parameterAsSource p TOTAL_ADDED = Some ta"
    and "parameterAsSource p TOTAL_MODIFIED = Some tm"
    and "parameterAsSource p KAART_ADDED = Some ka"
    and "parameterAsSource p KAART_MODIFIED = Some km"
    and "files s (Path_str h (parameterAsFileOutput p OUTPUT)) \<noteq> Denied"
  shows "fst (processAlgorithm h p s) =
     Inr [(''OUTPUT'', Path_str h (parameterAsFileOutput p ''OUTPUT''))]"
  by (simp add: processAlgorithm_writes [OF assms] OUTPUT_def)

theorem successful_invocation_returns_output_path_witness:
  "files demo_state_nonempty ''/tmp/out.csv'' \<noteq> Denied
   \<and> fst (processAlgorithm demo_host demo_parameters demo_state_nonempty)
       = Inr [(''OUTPUT'', ''/tmp/out.csv'')]"
proof -
  have f: "files demo_state_nonempty
      (Path_str demo_host (parameterAsFileOutput demo_parameters OUTPUT)) \<noteq> Denied"
    by (simp add: demo_state_nonempty_def demo_strings)
  show ?thesis
    using successful_invocation_returns_output_path [OF demo_sources f] demo_strings(3)
    by (simp add: demo_state_nonempty_def OUTPUT_def)
qed

text \<open>
  Claim C10. The procedure is deterministic. Two runs on the same host whose layers give
  the same measured lengths feature by feature (or fail to resolve alike), with the same
  country name, the same output path and the same initial contents of the output file,
  return the same result and leave the same contents in the file, whatever else differs:
  the geometries themselves, the earlier messages and measurements, the other files.
\<close>

theorem processAlgorithm_deterministic:
  assumes "map_option (map (measureLength h ''GRS80'')) (parameterAsSource p TOTAL_ADDED)
         = map_option (map (measureLength h ''GRS80'')) (parameterAsSource p' TOTAL_ADDED)"
    and "map_option (map (measureLength h ''GRS80'')) (parameterAsSource p TOTAL_MODIFIED)
         = map_option (map (measureLength h ''GRS80'')) (parameterAsSource p' TOTAL_MODIFIED)"
    and "map_option (map (measureLength h ''GRS80'')) (parameterAsSource p KAART_ADDED)
         = map_option (map (measureLength h ''GRS80'')) (parameterAsSource p' KAART_ADDED)"
    and "map_option (map (measureLength h ''GRS80'')) (parameterAsSource p KAART_MODIFIED)
         = map_option (map (measureLength h ''GRS80'')) (parameterAsSource p' KAART_MODIFIED)"
    and "parameterAsString p COUNTRY_NAME = parameterAsString p' COUNTRY_NAME"
    and "parameterAsFileOutput p OUTPUT = parameterAsFileOutput p' OUTPUT"
    and "files s (Path_str h (parameterAsFileOutput p OUTPUT))
         = files s' (Path_str h (parameterAsFileOutput p OUTPUT))"
  shows "fst (processAlgorithm h p s) = fst (processAlgorithm h p' s')
     \<and> files (snd (processAlgorithm h p s)) (Path_str h (parameterAsFileOutput p OUTPUT))
       = files (snd (processAlgorithm h p' s')) (Path_str h (parameterAsFileOutput p OUTPUT))"
proof (cases "parameterAsSource p TOTAL_ADDED = None \<or> parameterAsSource p TOTAL_MODIFIED = None
     \<or> parameterAsSource p KAART_ADDED = None \<or> parameterAsSource p KAART_MODIFIED = None")
  case True
  with assms(1-4)
  have u: "parameterAsSource p' TOTAL_ADDED = None \<or> parameterAsSource p' TOTAL_MODIFIED = None
     \<or> parameterAsSource p' KAART_ADDED = None \<or> parameterAsSource p' KAART_MODIFIED = None"
    by auto
  then show ?thesis
    by (simp add: processAlgorithm_unresolved [OF True] processAlgorithm_unresolved [OF u]
        assms(7))
next
  case False
  then obtain ta tm ka km where r:
    "parameterAsSource p TOTAL_ADDED = Some ta" "parameterAsSource p TOTAL_MODIFIED = Some tm"
    "parameterAsSource p KAART_ADDED = Some ka" "parameterAsSource p KAART_MODIFIED = Some km"
    by auto
  from same_lengths_resolved [OF assms(1) r(1)] obtain ta' where
    ta': "parameterAsSource p' TOTAL_ADDED = Some ta'"
      "map (measureLength h ''GRS80'') ta = map (measureLength h ''GRS80'') ta'" .
  from same_lengths_resolved [OF assms(2) r(2)] obtain tm' where
    tm': "parameterAsSource p' TOTAL_MODIFIED = Some tm'"
      "map (measureLength h ''GRS80'') tm = map (measureLength h ''GRS80'') tm'" .
  from same_lengths_resolved [OF assms(3) r(3)] obtain ka' where
    ka': "parameterAsSource p' KAART_ADDED = Some ka'"
      "map (measureLength h ''GRS80'') ka = map (measureLength h ''GRS80'') ka'" .
  from same_lengths_resolved [OF assms(4) r(4)] obtain km' where
    km': "parameterAsSource p' KAART_MODIFIED = Some km'"
      "map (measureLength h ''GRS80'') km = map (measureLength h ''GRS80'') km'" .
  note r' = ta'(1) tm'(1) ka'(1) km'(1)
  note m = ta'(2) tm'(2) ka'(2) km'(2)
  have d: "spec_distance h ta = spec_distance h ta'" "spec_distance h tm = spec_distance h tm'"
    "spec_distance h ka = spec_distance h ka'" "spec_distance h km = spec_distance h km'"
    by (simp_all add: spec_distance_def GRS80_def m)
  have f: "files (aggregated h ta tm ka km s) (Path_str h (parameterAsFileOutput p OUTPUT))
      = files (aggregated h ta' tm' ka' km' s') (Path_str h (parameterAsFileOutput p OUTPUT))"
    by (simp add: files_aggregated assms(7))
  note res = processAlgorithm_aggregates_result [OF r, of h s]
    and st = processAlgorithm_aggregates_state [OF r, of h s]
    and res' = processAlgorithm_aggregates_result [OF r', of h s',
      unfolded assms(5) [symmetric] assms(6) [symmetric] d [symmetric]]
    and st' = processAlgorithm_aggregates_state [OF r', of h s',
      unfolded assms(5) [symmetric] assms(6) [symmetric] d [symmetric]]
  from append_csv_local [OF f] show ?thesis
    by (simp only: res st res' st')
qed

theorem processAlgorithm_deterministic_witness:
  "parameterAsSource demo_parameters TOTAL_ADDED
     \<noteq> parameterAsSource demo_parameters_same_lengths TOTAL_ADDED
   \<and> feedback demo_state_empty \<noteq> feedback demo_state_elsewhere
   \<and> files demo_state_empty ''/tmp/out.csv'' = files demo_state_elsewhere ''/tmp/out.csv''
   \<and> fst (processAlgorithm demo_host demo_parameters demo_state_empty)
       = fst (processAlgorithm demo_host demo_parameters_same_lengths demo_state_elsewhere)
   \<and> files (snd (processAlgorithm demo_host demo_parameters demo_state_empty)) ''/tmp/out.csv''
       = files (snd (processAlgorithm demo_host demo_parameters_same_lengths demo_state_elsewhere))
           ''/tmp/out.csv''"
proof -
  have l: "map_option (map (measureLength demo_host ''GRS80''))
        (parameterAsSource demo_parameters TOTAL_ADDED)
      = map_option (map (measureLength demo_host ''GRS80''))
        (parameterAsSource demo_parameters_same_lengths TOTAL_ADDED)"
    "map_option (map (measureLength demo_host ''GRS80''))
        (parameterAsSource demo_parameters TOTAL_MODIFIED)
      = map_option (map (measureLength demo_host ''GRS80''))
        (parameterAsSource demo_parameters_same_lengths TOTAL_MODIFIED)"
    "map_option (map (measureLength demo_host ''GRS80''))
        (parameterAsSource demo_parameters KAART_ADDED)
      = map_option (map (measureLength demo_host ''GRS80''))
        (parameterAsSource demo_parameters_same_lengths KAART_ADDED)"
    "map_option (map (measureLength demo_host ''GRS80''))
        (parameterAsSource demo_parameters KAART_MODIFIED)
      = map_option (map (measureLength demo_host ''GRS80''))
        (parameterAsSource demo_parameters_same_lengths KAART_MODIFIED)"
    by (simp_all add: demo_sources demo_sources_same_lengths demo_host_def)
  have c: "parameterAsString demo_parameters COUNTRY_NAME
      = parameterAsString demo_parameters_same_lengths COUNTRY_NAME"
    by (simp add: demo_strings)
  have o: "parameterAsFileOutput demo_parameters OUTPUT
      = parameterAsFileOutput demo_parameters_same_lengths OUTPUT"
    by (simp add: demo_parameters_def demo_parameters_same_lengths_def OUTPUT_def)
  have f: "files demo_state_empty (Path_str demo_host (parameterAsFileOutput demo_parameters OUTPUT))
      = files demo_state_elsewhere (Path_str demo_host (parameterAsFileOutput demo_parameters OUTPUT))"
    by (simp add: demo_strings demo_state_empty_def demo_state_elsewhere_def)
  have n: "parameterAsSource demo_parameters TOTAL_ADDED
     \<noteq> parameterAsSource demo_parameters_same_lengths TOTAL_ADDED"
    by (simp add: demo_sources demo_sources_same_lengths)
  have g: "feedback demo_state_empty \<noteq> feedback demo_state_elsewhere"
    by (simp add: demo_state_empty_def demo_state_elsewhere_def)
  show ?thesis
    using processAlgorithm_deterministic [OF l c o f, unfolded demo_strings] f n g
    by (simp add: demo_strings)
qed

end
